theory Spec2Isabelle
  imports Main "HOL-Library.AList"
begin

section \<open>Data model\<close>

text \<open>
  The script \<^verbatim>\<open>annotate_vcf_with_denovo_lls.py\<close> merges a HipSTR genotype VCF (the
  primary stream, \<^verbatim>\<open>gt_vcf_reader\<close>) with a DenovoFinder VCF (the secondary stream,
  \<^verbatim>\<open>ll_vcf_reader\<close>). The VCF library is outside the repository; the model keeps
  the part of its objects that the script reads and writes.

  A Python value held in a call is either a \<^verbatim>\<open>str\<close> or some other object; the script itself
  only creates the string \<^verbatim>\<open>"."\<close>.
\<close>

datatype 'v pyval = PyStr string | PyObj 'v

text \<open>A \<^verbatim>\<open>_Call\<close>: the sample name and its named tuple of values, in field order.\<close>

record 'v call =
  sample :: string
  data :: "(string \<times> 'v pyval) list"

text \<open>
  A \<^verbatim>\<open>_Record\<close>. \<^verbatim>\<open>ID\<close> and \<^verbatim>\<open>FORMAT\<close> are \<^verbatim>\<open>None\<close> when the column is missing;
  alleles are objects of type \<open>'a\<close> that the script only reads through \<^verbatim>\<open>str\<close>.
\<close>

record ('a, 'v) vcf_record =
  CHROM :: string
  POS :: int
  ID :: "string option"
  REF :: 'a
  ALT :: "'a list"
  FORMAT :: "string option"
  samples :: "'v call list"

text \<open>An entry of a reader's \<^verbatim>\<open>formats\<close> dictionary (the library's \<^verbatim>\<open>_Format\<close> tuple).\<close>

record vcf_format =
  fmt_num :: "int option"
  fmt_type :: string
  fmt_desc :: string

text \<open>
  \<^verbatim>\<open>formats\<close> is an ordered dictionary: an association list whose keys are distinct,
  assignment of a new key appending at the end (\<^const>\<open>AList.update\<close>).
\<close>

type_synonym formats = "(string \<times> vcf_format) list"

record ('a, 'v) reader =
  rsamples :: "string list"
  formats :: formats
  records :: "('a, 'v) vcf_record list"

text \<open>
  How a run can stop: the four \<^verbatim>\<open>exit("ERROR: ...")\<close> families of the script, under the
  names the specification gives them, and the exceptions that the Python operations the
  script uses can raise.
\<close>

datatype mismatch = Chromosomes | Positions | IDs | REF_alleles | Alternate_alleles

datatype error =
    EmptyIntersectionError
  | FieldCollisionError string
  | PairingMismatchError mismatch
  | DuplicateFieldError
  | StopIteration
  | ValueError
  | KeyError string
  | AttributeError string

text \<open>What has been written to standard output: the header, then one line per record.\<close>

datatype ('a, 'v) written = Header formats | Line "('a, 'v) vcf_record"

text \<open>
  The state of the loop of \<^verbatim>\<open>main\<close>: the one-record buffer \<^verbatim>\<open>ll_record\<close>, what
  \<^verbatim>\<open>ll_vcf_reader\<close> has not yet yielded, and the output so far.
\<close>

record ('a, 'v) state =
  ll_record :: "('a, 'v) vcf_record option"
  ll_stream :: "('a, 'v) vcf_record list"
  stdout :: "('a, 'v) written list"

section \<open>Python string operations used by the script\<close>

text \<open>\<^verbatim>\<open>s.split(c)\<close> for a one-character separator: never the empty list.\<close>

fun py_split :: "char \<Rightarrow> string \<Rightarrow> string list" where
  "py_split sep [] = [[]]"
| "py_split sep (c # cs) =
     (if c = sep then [] # py_split sep cs
      else (case py_split sep cs of [] \<Rightarrow> [[c]] | w # ws \<Rightarrow> (c # w) # ws))"

text \<open>\<^verbatim>\<open>sep.join(xs)\<close>.\<close>

fun py_join :: "string \<Rightarrow> string list \<Rightarrow> string" where
  "py_join sep [] = []"
| "py_join sep [x] = x"
| "py_join sep (x # y # ys) = x @ sep @ py_join sep (y # ys)"

section \<open>\<^verbatim>\<open>records_match\<close>\<close>

text \<open>
  Lines 10 to 18. Each \<^verbatim>\<open>exit\<close> is a \<^const>\<open>PairingMismatchError\<close> naming the component of
  its message; returning normally is \<open>Inr ()\<close>. The loop over \<^verbatim>\<open>range(len(rec_a.ALT))\<close>
  runs only when both lists have the same length.
\<close>

definition records_match ::
  "('a \<Rightarrow> string) \<Rightarrow> ('a, 'v) vcf_record \<Rightarrow> ('a, 'v) vcf_record \<Rightarrow> error + unit" where
  "records_match str rec_a rec_b =
     (if CHROM rec_a \<noteq> CHROM rec_b then Inl (PairingMismatchError Chromosomes)
      else if POS rec_a \<noteq> POS rec_b then Inl (PairingMismatchError Positions)
      else if ID rec_a \<noteq> ID rec_b then Inl (PairingMismatchError IDs)
      else if str (REF rec_a) \<noteq> str (REF rec_b) then Inl (PairingMismatchError REF_alleles)
      else if length (ALT rec_a) \<noteq> length (ALT rec_b)
        then Inl (PairingMismatchError Alternate_alleles)
      else if \<not> list_all (\<lambda>i. str (ALT rec_a ! i) = str (ALT rec_b ! i)) [0..<length (ALT rec_a)]
        then Inl (PairingMismatchError Alternate_alleles)
      else Inr ())"

section \<open>Initialisation: unifying the FORMAT dictionaries\<close>

text \<open>
  Lines 42 to 45: for each item of \<^verbatim>\<open>ll_vcf_reader.formats\<close>, in order, exit when the key
  is in \<^verbatim>\<open>gt_vcf_reader.formats\<close>, else store it there. The result is the updated
  \<^verbatim>\<open>gt_vcf_reader.formats\<close>.
\<close>

fun unify_formats :: "formats \<Rightarrow> formats \<Rightarrow> error + formats" where
  "unify_formats gt_formats [] = Inr gt_formats"
| "unify_formats gt_formats ((k, v) # rest) =
     (if k \<in> fst ` set gt_formats then Inl (FieldCollisionError k)
      else unify_formats (AList.update k v gt_formats) rest)"

section \<open>Building one merged record\<close>

text \<open>
  \<^verbatim>\<open>vcf.model.make_calldata_tuple(fields)\<close> creates a \<^verbatim>\<open>collections.namedtuple\<close>, which
  raises \<^verbatim>\<open>ValueError\<close> for a field name that is repeated or that is not an acceptable
  attribute name. Which names are acceptable is a parameter, \<open>valid\<close>.
\<close>

definition make_calldata_tuple :: "(string \<Rightarrow> bool) \<Rightarrow> string list \<Rightarrow> error + string list" where
  "make_calldata_tuple valid flds =
     (if list_all valid flds \<and> distinct flds then Inr flds else Inl ValueError)"

text \<open>
  Lines 75 to 87: for each field of the tuple, whether it is one of \<^verbatim>\<open>gt_fields\<close>
  (\<^verbatim>\<open>in_gt\<close>), and its type and number, looked up in the dictionary of the reader it is
  attributed to. A missing key raises \<^verbatim>\<open>KeyError\<close> at the first such field.
\<close>

fun field_sources ::
  "formats \<Rightarrow> formats \<Rightarrow> string list \<Rightarrow> string list \<Rightarrow> error + (bool \<times> string \<times> int option) list" where
  "field_sources gt_formats ll_formats gt_fields [] = Inr []"
| "field_sources gt_formats ll_formats gt_fields (fmt # rest) =
     (case map_of (if fmt \<in> set gt_fields then gt_formats else ll_formats) fmt of
        None \<Rightarrow> Inl (KeyError fmt)
      | Some e \<Rightarrow>
          (case field_sources gt_formats ll_formats gt_fields rest of
             Inl err \<Rightarrow> Inl err
           | Inr r \<Rightarrow> Inr ((fmt \<in> set gt_fields, fmt_type e, fmt_num e) # r)))"

text \<open>\<^verbatim>\<open>sample[key]\<close> is \<^verbatim>\<open>getattr(sample.data, key)\<close>.\<close>

definition call_get :: "'v call \<Rightarrow> string \<Rightarrow> error + 'v pyval" where
  "call_get c key = (case map_of (data c) key of None \<Rightarrow> Inl (AttributeError key) | Some v \<Rightarrow> Inr v)"

text \<open>\<^verbatim>\<open>record.genotype(name)\<close>: the call of the sample of that name.\<close>

definition genotype :: "('a, 'v) vcf_record \<Rightarrow> string \<Rightarrow> error + 'v call" where
  "genotype r name =
     (case find (\<lambda>c. sample c = name) (samples r) of None \<Rightarrow> Inl (KeyError name) | Some c \<Rightarrow> Inr c)"

text \<open>Lines 98 to 104: the values of one sample, over the fields paired with \<^verbatim>\<open>in_gt\<close>.\<close>

fun sampdat :: "'v call \<Rightarrow> 'v call option \<Rightarrow> (string \<times> bool) list \<Rightarrow> error + 'v pyval list" where
  "sampdat smp ll_sample [] = Inr []"
| "sampdat smp ll_sample ((key, in_gt) # rest) =
     (case (if in_gt then call_get smp key
            else (case ll_sample of None \<Rightarrow> Inr (PyStr ''.'') | Some l \<Rightarrow> call_get l key)) of
        Inl e \<Rightarrow> Inl e
      | Inr v \<Rightarrow>
          (case sampdat smp ll_sample rest of Inl e \<Rightarrow> Inl e | Inr vs \<Rightarrow> Inr (v # vs)))"

text \<open>Lines 90 to 107: one new call for each sample of \<^verbatim>\<open>gt_record\<close>, in order.\<close>

fun new_samples ::
  "string set \<Rightarrow> ('a, 'v) vcf_record \<Rightarrow> string list \<Rightarrow> bool list \<Rightarrow> 'v call list \<Rightarrow> error + 'v call list" where
  "new_samples all_ll_samples ll_rec flds in_gt [] = Inr []"
| "new_samples all_ll_samples ll_rec flds in_gt (smp # rest) =
     (case (if sample smp \<in> all_ll_samples
            then (case genotype ll_rec (sample smp) of Inl e \<Rightarrow> Inl e | Inr l \<Rightarrow> Inr (Some l))
            else Inr None) of
        Inl e \<Rightarrow> Inl e
      | Inr ll_sample \<Rightarrow>
          (case sampdat smp ll_sample (zip flds in_gt) of
             Inl e \<Rightarrow> Inl e
           | Inr vs \<Rightarrow>
               (case new_samples all_ll_samples ll_rec flds in_gt rest of
                  Inl e \<Rightarrow> Inl e
                | Inr cs \<Rightarrow> Inr (\<lparr>sample = sample smp, data = zip flds vs\<rparr> # cs))))"

text \<open>Lines 69 to 72: the merged field list.\<close>

definition merged_fields :: "bool \<Rightarrow> string list \<Rightarrow> string list \<Rightarrow> string list" where
  "merged_fields keep_LLs gt_fields denovo_fields =
     (if keep_LLs then gt_fields @ denovo_fields
      else filter (\<lambda>x. x \<notin> set [''GL'', ''PL'', ''PHASEDGL'']) (gt_fields @ denovo_fields))"

text \<open>
  Lines 62 to 110: the body of the loop after \<^verbatim>\<open>records_match\<close>, giving the record that
  is written. The test of line 66 is written as the source has it.
\<close>

definition merge_record ::
  "bool \<Rightarrow> (string \<Rightarrow> bool) \<Rightarrow> formats \<Rightarrow> formats \<Rightarrow> string set \<Rightarrow>
   ('a, 'v) vcf_record \<Rightarrow> ('a, 'v) vcf_record \<Rightarrow> error + ('a, 'v) vcf_record" where
  "merge_record keep_LLs valid gt_formats ll_formats all_ll_samples gt_record ll_rec =
     (case FORMAT gt_record of
        None \<Rightarrow> Inl (AttributeError ''split'')
      | Some gt_format \<Rightarrow>
     (case FORMAT ll_rec of
        None \<Rightarrow> Inl (AttributeError ''split'')
      | Some ll_format \<Rightarrow>
     (let gt_fields = py_split CHR '':'' gt_format;
          denovo_fields = py_split CHR '':'' ll_format
      in if length (gt_fields @ denovo_fields) \<noteq> length gt_fields + length denovo_fields
         then Inl DuplicateFieldError
         else
     (let flds = merged_fields keep_LLs gt_fields denovo_fields
      in case make_calldata_tuple valid flds of
           Inl e \<Rightarrow> Inl e
         | Inr samp_fmt \<Rightarrow>
     (case field_sources gt_formats ll_formats gt_fields samp_fmt of
        Inl e \<Rightarrow> Inl e
      | Inr src \<Rightarrow>
     (case new_samples all_ll_samples ll_rec samp_fmt (map fst src) (samples gt_record) of
        Inl e \<Rightarrow> Inl e
      | Inr calls \<Rightarrow>
          Inr (gt_record\<lparr>FORMAT := Some (py_join '':'' flds), samples := calls\<rparr>)))))))"

section \<open>The pairing loop\<close>

text \<open>
  One iteration of the loop of lines 51 to 116 for the primary record \<open>gt_record\<close>. The
  result is the state when the iteration ends and, if it ended the run, the error.
  \<^verbatim>\<open>ll_vcf_reader.next()\<close> on an exhausted reader raises \<^verbatim>\<open>StopIteration\<close>, which
  nothing in \<^verbatim>\<open>main\<close> catches.
\<close>

definition step ::
  "bool \<Rightarrow> ('a \<Rightarrow> string) \<Rightarrow> (string \<Rightarrow> bool) \<Rightarrow> formats \<Rightarrow> formats \<Rightarrow> string set \<Rightarrow>
   ('a, 'v) state \<Rightarrow> ('a, 'v) vcf_record \<Rightarrow> ('a, 'v) state \<times> error option" where
  "step keep_LLs str valid gt_formats ll_formats all_ll_samples st gt_record =
     (case (case ll_record st of
              Some r \<Rightarrow> Inr (st, r)
            | None \<Rightarrow>
                (case ll_stream st of
                   [] \<Rightarrow> Inl StopIteration
                 | r # rest \<Rightarrow> Inr (st\<lparr>ll_record := Some r, ll_stream := rest\<rparr>, r))) of
        Inl e \<Rightarrow> (st, Some e)
      | Inr (st1, ll_rec) \<Rightarrow>
          if CHROM gt_record \<noteq> CHROM ll_rec \<or> POS gt_record < POS ll_rec then (st1, None)
          else
            (case records_match str gt_record ll_rec of
               Inl e \<Rightarrow> (st1, Some e)
             | Inr u \<Rightarrow>
                 (case merge_record keep_LLs valid gt_formats ll_formats all_ll_samples
                         gt_record ll_rec of
                    Inl e \<Rightarrow> (st1, Some e)
                  | Inr new_record \<Rightarrow>
                      (st1\<lparr>ll_record := None, stdout := stdout st1 @ [Line new_record]\<rparr>, None))))"

text \<open>The \<^verbatim>\<open>for\<close> loop over the primary records: it ends at the first error.\<close>

fun pairing_loop ::
  "bool \<Rightarrow> ('a \<Rightarrow> string) \<Rightarrow> (string \<Rightarrow> bool) \<Rightarrow> formats \<Rightarrow> formats \<Rightarrow> string set \<Rightarrow>
   ('a, 'v) state \<Rightarrow> ('a, 'v) vcf_record list \<Rightarrow> ('a, 'v) state \<times> error option" where
  "pairing_loop keep_LLs str valid gt_formats ll_formats all_ll_samples st [] = (st, None)"
| "pairing_loop keep_LLs str valid gt_formats ll_formats all_ll_samples st (gt_record # rest) =
     (case step keep_LLs str valid gt_formats ll_formats all_ll_samples st gt_record of
        (st', Some e) \<Rightarrow> (st', Some e)
      | (st', None) \<Rightarrow>
          pairing_loop keep_LLs str valid gt_formats ll_formats all_ll_samples st' rest)"

text \<open>
  \<^verbatim>\<open>main\<close>, lines 32 to 116, from the two readers: what was written to standard output
  and the error that ended the run, if any. The writer is opened, and the header
  written, only after both initial checks.
\<close>

definition main ::
  "bool \<Rightarrow> ('a \<Rightarrow> string) \<Rightarrow> (string \<Rightarrow> bool) \<Rightarrow> ('a, 'v) reader \<Rightarrow> ('a, 'v) reader \<Rightarrow>
   ('a, 'v) written list \<times> error option" where
  "main keep_LLs str valid gt_vcf_reader ll_vcf_reader =
     (let all_ll_samples = set (rsamples ll_vcf_reader)
      in if all_ll_samples \<inter> set (rsamples gt_vcf_reader) = {}
         then ([], Some EmptyIntersectionError)
         else
           (case unify_formats (formats gt_vcf_reader) (formats ll_vcf_reader) of
              Inl e \<Rightarrow> ([], Some e)
            | Inr gt_formats \<Rightarrow>
                (case pairing_loop keep_LLs str valid gt_formats (formats ll_vcf_reader)
                        all_ll_samples
                        \<lparr>ll_record = None, ll_stream = records ll_vcf_reader,
                         stdout = [Header gt_formats]\<rparr>
                        (records gt_vcf_reader) of
                   (st, r) \<Rightarrow> (stdout st, r))))"


section \<open>Example inputs\<close>


text \<open>
  The scenario of the specification: a primary record at \<open>(chr1, 100, rs1, A, [T])\<close> with
  fields \<^verbatim>\<open>GT:DP\<close> and a secondary record at the same site with the field \<^verbatim>\<open>DNM_LL\<close>.
  Sample \<^verbatim>\<open>s1\<close> is in both files, sample \<^verbatim>\<open>s2\<close> only in the primary one. The primary
  reader holds a second record, at position 200, which has no secondary record. The
  \<^verbatim>\<open>ex_gl\<close> records carry the field \<^verbatim>\<open>GL\<close> in both FORMAT columns, the secondary header
  not declaring it.
\<close>

definition ex_format :: vcf_format where
  "ex_format = \<lparr>fmt_num = Some 1, fmt_type = ''String'', fmt_desc = ''''\<rparr>"

definition ex_gt :: "(string, int) vcf_record" where
  "ex_gt = \<lparr>CHROM = ''chr1'', POS = 100, ID = Some ''rs1'', REF = ''A'', ALT = [''T''],
     FORMAT = Some ''GT:DP'',
     samples = [\<lparr>sample = ''s1'', data = [(''GT'', PyStr ''0/1''), (''DP'', PyObj 30)]\<rparr>,
                \<lparr>sample = ''s2'', data = [(''GT'', PyStr ''0/0''), (''DP'', PyObj 12)]\<rparr>]\<rparr>"

definition ex_ll :: "(string, int) vcf_record" where
  "ex_ll = \<lparr>CHROM = ''chr1'', POS = 100, ID = Some ''rs1'', REF = ''A'', ALT = [''T''],
     FORMAT = Some ''DNM_LL'',
     samples = [\<lparr>sample = ''s1'', data = [(''DNM_LL'', PyStr ''-2.3'')]\<rparr>]\<rparr>"

definition ex_merged :: "(string, int) vcf_record" where
  "ex_merged = \<lparr>CHROM = ''chr1'', POS = 100, ID = Some ''rs1'', REF = ''A'', ALT = [''T''],
     FORMAT = Some ''GT:DP:DNM_LL'',
     samples =
       [\<lparr>sample = ''s1'',
          data = [(''GT'', PyStr ''0/1''), (''DP'', PyObj 30), (''DNM_LL'', PyStr ''-2.3'')]\<rparr>,
        \<lparr>sample = ''s2'',
          data = [(''GT'', PyStr ''0/0''), (''DP'', PyObj 12), (''DNM_LL'', PyStr ''.'')]\<rparr>]\<rparr>"

definition ex_gt_reader :: "(string, int) reader" where
  "ex_gt_reader = \<lparr>rsamples = [''s1'', ''s2''],
     formats = [(''GT'', ex_format), (''DP'', ex_format)],
     records = [ex_gt, ex_gt\<lparr>POS := 200\<rparr>]\<rparr>"

definition ex_ll_reader :: "(string, int) reader" where
  "ex_ll_reader = \<lparr>rsamples = [''s1''],
     formats = [(''DNM_LL'', ex_format)],
     records = [ex_ll]\<rparr>"

definition ex_unified :: formats where
  "ex_unified = [(''GT'', ex_format), (''DP'', ex_format), (''DNM_LL'', ex_format)]"

definition ex_gl_gt :: "(string, int) vcf_record" where
  "ex_gl_gt = \<lparr>CHROM = ''chr1'', POS = 100, ID = Some ''rs1'', REF = ''A'', ALT = [''T''],
     FORMAT = Some ''GT:GL'',
     samples = [\<lparr>sample = ''s1'', data = [(''GT'', PyStr ''0/1''), (''GL'', PyObj 7)]\<rparr>]\<rparr>"

definition ex_gl_ll :: "(string, int) vcf_record" where
  "ex_gl_ll = \<lparr>CHROM = ''chr1'', POS = 100, ID = Some ''rs1'', REF = ''A'', ALT = [''T''],
     FORMAT = Some ''GL:DNM_LL'',
     samples = [\<lparr>sample = ''s1'', data = [(''GL'', PyObj 8), (''DNM_LL'', PyStr ''-2.3'')]\<rparr>]\<rparr>"

definition ex_gl_merged :: "(string, int) vcf_record" where
  "ex_gl_merged = \<lparr>CHROM = ''chr1'', POS = 100, ID = Some ''rs1'', REF = ''A'', ALT = [''T''],
     FORMAT = Some ''GT:DNM_LL'',
     samples = [\<lparr>sample = ''s1'', data = [(''GT'', PyStr ''0/1''), (''DNM_LL'', PyStr ''-2.3'')]\<rparr>]\<rparr>"

definition ex_gl_gt_reader :: "(string, int) reader" where
  "ex_gl_gt_reader = \<lparr>rsamples = [''s1''],
     formats = [(''GT'', ex_format), (''GL'', ex_format)],
     records = [ex_gl_gt]\<rparr>"

definition ex_gl_ll_reader :: "(string, int) reader" where
  "ex_gl_ll_reader = \<lparr>rsamples = [''s1''],
     formats = [(''DNM_LL'', ex_format)],
     records = [ex_gl_ll]\<rparr>"

definition ex_state :: "(string, int) state" where
  "ex_state = \<lparr>ll_record = Some ex_ll, ll_stream = [], stdout = []\<rparr>"

definition ex_valid :: "string \<Rightarrow> bool" where
  "ex_valid name = (name \<noteq> [])"

definition ex_other_reader :: "(string, int) reader" where
  "ex_other_reader = \<lparr>rsamples = [''s9''],
     formats = [(''GT'', ex_format)],
     records = [ex_ll]\<rparr>"

definition ex_collide_reader :: "(string, int) reader" where
  "ex_collide_reader = \<lparr>rsamples = [''s1''],
     formats = [(''DP'', ex_format)],
     records = [ex_ll]\<rparr>"

definition ex_gl_kept :: "(string, int) vcf_record" where
  "ex_gl_kept = \<lparr>CHROM = ''chr1'', POS = 100, ID = Some ''rs1'', REF = ''A'', ALT = [''T''],
     FORMAT = Some ''GT:GL:DNM_LL'',
     samples = [\<lparr>sample = ''s1'',
        data = [(''GT'', PyStr ''0/1''), (''GL'', PyObj 7), (''DNM_LL'', PyStr ''-2.3'')]\<rparr>]\<rparr>"

section \<open>Record pairing\<close>

lemma list_all_nth_map_eq:
  assumes "length xs = length ys"
  shows "list_all (\<lambda>i. f (xs ! i) = f (ys ! i)) [0..<length xs] = (map f xs = map f ys)"
proof -
  have "(map f xs = map f ys) = (\<forall>i<length xs. f (xs ! i) = f (ys ! i))"
    using assms list_eq_iff_nth_eq [of "map f xs" "map f ys"] by simp
  then show ?thesis by (simp add: list_all_iff Ball_def)
qed

text \<open>
  Claim C1. \<^verbatim>\<open>records_match\<close> returns normally exactly when chromosome, position,
  identifier, the reference allele as a string and the whole ordered list of alternate
  alleles as strings are equal; otherwise it exits with the pairing error of the first
  component, in the order of the checks, that differs.
\<close>

theorem records_match_ok:
  "records_match str a b =
     (if CHROM a = CHROM b \<and> POS a = POS b \<and> ID a = ID b \<and> str (REF a) = str (REF b)
         \<and> map str (ALT a) = map str (ALT b)
      then Inr ()
      else Inl (PairingMismatchError
        (if CHROM a \<noteq> CHROM b then Chromosomes
         else if POS a \<noteq> POS b then Positions
         else if ID a \<noteq> ID b then IDs
         else if str (REF a) \<noteq> str (REF b) then REF_alleles
         else Alternate_alleles)))"
proof (cases "length (ALT a) = length (ALT b)")
  case True
  then show ?thesis
    using list_all_nth_map_eq [OF True, of str] by (simp add: records_match_def)
next
  case False
  then have "map str (ALT a) \<noteq> map str (ALT b)"
    using map_eq_imp_length_eq by blast
  with False show ?thesis
    by (simp add: records_match_def)
qed

theorem records_match_ok_witness:
  "records_match id ex_gt ex_ll = Inr () \<and>
   records_match id ex_gt (ex_ll\<lparr>ALT := [''T'', ''C'']\<rparr>)
     = Inl (PairingMismatchError Alternate_alleles) \<and>
   records_match id ex_gt (ex_ll\<lparr>ID := None\<rparr>) = Inl (PairingMismatchError IDs)"
  using records_match_ok [of id ex_gt ex_ll]
    records_match_ok [of id ex_gt "ex_ll\<lparr>ALT := [''T'', ''C'']\<rparr>"]
    records_match_ok [of id ex_gt "ex_ll\<lparr>ID := None\<rparr>"]
  by (simp add: ex_gt_def ex_ll_def)

section \<open>Skipping and pairing by position\<close>

lemma step_buffered_skip:
  "ll_record st = Some ll \<Longrightarrow> CHROM g \<noteq> CHROM ll \<or> POS g < POS ll \<Longrightarrow>
   step k s v gf lf al st g = (st, None)"
  by (simp add: step_def)

lemma step_buffered_ahead:
  "ll_record st = Some ll \<Longrightarrow> CHROM g = CHROM ll \<Longrightarrow> POS ll < POS g \<Longrightarrow>
   step k s v gf lf al st g = (st, Some (PairingMismatchError Positions))"
  by (simp add: step_def records_match_def)

lemma step_exhausted:
  "ll_record st = None \<Longrightarrow> ll_stream st = [] \<Longrightarrow>
   step keep str valid gf lf A st g = (st, Some StopIteration)"
  by (simp add: step_def)

lemma step_refill_skip:
  "ll_record st = None \<Longrightarrow> ll_stream st = ll # rest \<Longrightarrow>
   CHROM g \<noteq> CHROM ll \<or> POS g < POS ll \<Longrightarrow>
   step keep str valid gf lf A st g = (st\<lparr>ll_record := Some ll, ll_stream := rest\<rparr>, None)"
  by (simp add: step_def)

lemma pairing_loop_exhausted:
  "ll_record st = None \<Longrightarrow> ll_stream st = [] \<Longrightarrow>
   pairing_loop keep str valid gf lf A st (g # gts) = (st, Some StopIteration)"
  by (simp add: step_exhausted)

lemma step_emits:
  "step keep str valid gf lf A st g = (st', e) \<Longrightarrow> stdout st' \<noteq> stdout st \<Longrightarrow>
   \<exists>ll_rec r. (ll_record st = Some ll_rec \<or> ll_record st = None \<and> ll_stream st = ll_rec # ll_stream st') \<and>
     records_match str g ll_rec = Inr () \<and>
     merge_record keep valid gf lf A g ll_rec = Inr r \<and>
     stdout st' = stdout st @ [Line r] \<and> ll_record st' = None \<and> e = None"
  by (auto simp: step_def split: option.splits sum.splits if_splits list.splits)

text \<open>
  Claim C2. With a secondary record in the buffer, a primary record on another
  chromosome, or at a strictly smaller position, is skipped: the iteration ends without
  error and leaves the whole state as it was (same buffer, nothing read from the secondary
  reader, nothing written), and the loop goes on with the next primary record.
\<close>

theorem skip_keeps_buffer:
  "ll_record st = Some ll \<Longrightarrow> CHROM g \<noteq> CHROM ll \<or> POS g < POS ll \<Longrightarrow>
   step k s v gf lf al st g = (st, None) \<and>
   pairing_loop k s v gf lf al st (g # rest) = pairing_loop k s v gf lf al st rest"
  by (simp add: step_buffered_skip)

theorem skip_keeps_buffer_witness:
  "ll_record ex_state = Some ex_ll \<and>
   POS (ex_gt\<lparr>POS := 50\<rparr>) < POS ex_ll \<and>
   CHROM (ex_gt\<lparr>CHROM := ''chr2''\<rparr>) \<noteq> CHROM ex_ll \<and>
   step False id ex_valid ex_unified [(''DNM_LL'', ex_format)] {''s1''} ex_state
     (ex_gt\<lparr>POS := 50\<rparr>) = (ex_state, None) \<and>
   step False id ex_valid ex_unified [(''DNM_LL'', ex_format)] {''s1''} ex_state
     (ex_gt\<lparr>CHROM := ''chr2''\<rparr>) = (ex_state, None)"
proof -
  have h1: "ll_record ex_state = Some ex_ll"
    by (simp add: ex_state_def)
  have h2: "CHROM (ex_gt\<lparr>POS := 50\<rparr>) \<noteq> CHROM ex_ll \<or> POS (ex_gt\<lparr>POS := 50\<rparr>) < POS ex_ll"
    and h2': "POS (ex_gt\<lparr>POS := 50\<rparr>) < POS ex_ll"
    by (simp_all add: ex_gt_def ex_ll_def)
  have h3: "CHROM (ex_gt\<lparr>CHROM := ''chr2''\<rparr>) \<noteq> CHROM ex_ll
      \<or> POS (ex_gt\<lparr>CHROM := ''chr2''\<rparr>) < POS ex_ll"
    and h3': "CHROM (ex_gt\<lparr>CHROM := ''chr2''\<rparr>) \<noteq> CHROM ex_ll"
    by (simp_all add: ex_gt_def ex_ll_def)
  show ?thesis
    using skip_keeps_buffer [OF h1 h2] skip_keeps_buffer [OF h1 h3] h1 h2' h3'
    by simp
qed

text \<open>
  Claim C3. With a secondary record in the buffer, a primary record on the same chromosome
  at a strictly greater position is not skipped and the secondary reader is not advanced:
  \<^verbatim>\<open>records_match\<close> ends the run with the pairing error for positions, the state being
  what it was.
\<close>

theorem ahead_of_buffer_aborts:
  "ll_record st = Some ll \<Longrightarrow> CHROM g = CHROM ll \<Longrightarrow> POS ll < POS g \<Longrightarrow>
   step k s v gf lf al st g = (st, Some (PairingMismatchError Positions)) \<and>
   pairing_loop k s v gf lf al st (g # rest) = (st, Some (PairingMismatchError Positions))"
  by (simp add: step_buffered_ahead)

theorem ahead_of_buffer_aborts_witness:
  "ll_record ex_state = Some ex_ll \<and>
   CHROM (ex_gt\<lparr>POS := 150\<rparr>) = CHROM ex_ll \<and> POS ex_ll < POS (ex_gt\<lparr>POS := 150\<rparr>) \<and>
   step False id ex_valid ex_unified [(''DNM_LL'', ex_format)] {''s1''} ex_state
     (ex_gt\<lparr>POS := 150\<rparr>) = (ex_state, Some (PairingMismatchError Positions))"
proof -
  have h1: "ll_record ex_state = Some ex_ll"
    by (simp add: ex_state_def)
  have h2: "CHROM (ex_gt\<lparr>POS := 150\<rparr>) = CHROM ex_ll"
    and h3: "POS ex_ll < POS (ex_gt\<lparr>POS := 150\<rparr>)"
    by (simp_all add: ex_gt_def ex_ll_def)
  show ?thesis
    using ahead_of_buffer_aborts [OF h1 h2 h3] h1 h2 h3 by simp
qed

text \<open>
  Claim C10. Once the buffered secondary record is on a chromosome that no remaining
  primary record is on, the loop runs to the end of the primary records without error and
  without changing the state: the buffer keeps the stale record, the secondary reader is
  never read and nothing more is written.
\<close>

theorem stale_chromosome_skips_all:
  "ll_record st = Some ll \<Longrightarrow> \<forall>g \<in> set gts. CHROM g \<noteq> CHROM ll \<Longrightarrow>
   pairing_loop k s v gf lf al st gts = (st, None)"
  by (induction gts) (simp_all add: step_buffered_skip)

theorem stale_chromosome_skips_all_witness:
  "ll_record (ex_state\<lparr>ll_record := Some (ex_ll\<lparr>CHROM := ''chr2''\<rparr>)\<rparr>)
     = Some (ex_ll\<lparr>CHROM := ''chr2''\<rparr>) \<and>
   CHROM ex_gt \<noteq> CHROM (ex_ll\<lparr>CHROM := ''chr2''\<rparr>) \<and>
   CHROM (ex_gt\<lparr>POS := 200\<rparr>) \<noteq> CHROM (ex_ll\<lparr>CHROM := ''chr2''\<rparr>) \<and>
   pairing_loop False id ex_valid ex_unified [(''DNM_LL'', ex_format)] {''s1''}
     (ex_state\<lparr>ll_record := Some (ex_ll\<lparr>CHROM := ''chr2''\<rparr>)\<rparr>) [ex_gt, ex_gt\<lparr>POS := 200\<rparr>]
   = (ex_state\<lparr>ll_record := Some (ex_ll\<lparr>CHROM := ''chr2''\<rparr>)\<rparr>, None)"
proof -
  have h1: "ll_record (ex_state\<lparr>ll_record := Some (ex_ll\<lparr>CHROM := ''chr2''\<rparr>)\<rparr>)
     = Some (ex_ll\<lparr>CHROM := ''chr2''\<rparr>)"
    by simp
  have h2: "\<forall>g\<in>set [ex_gt, ex_gt\<lparr>POS := 200\<rparr>]. CHROM g \<noteq> CHROM (ex_ll\<lparr>CHROM := ''chr2''\<rparr>)"
    by (simp add: ex_gt_def)
  show ?thesis
    using stale_chromosome_skips_all [OF h1 h2] h1 h2 by simp
qed

section \<open>Running \<^verbatim>\<open>main\<close> on the examples\<close>

lemma main_run:
  "set (rsamples ll) \<inter> set (rsamples gt) \<noteq> {} \<Longrightarrow>
   unify_formats (formats gt) (formats ll) = Inr u \<Longrightarrow>
   pairing_loop keep str valid u (formats ll) (set (rsamples ll))
     \<lparr>ll_record = None, ll_stream = records ll, stdout = [Header u]\<rparr> (records gt) = (st, r) \<Longrightarrow>
   main keep str valid gt ll = (stdout st, r)"
  by (simp add: main_def)

lemma ex_merge_record:
  "merge_record False ex_valid ex_unified [(''DNM_LL'', ex_format)] {''s1''} ex_gt ex_ll
   = Inr ex_merged"
  by (auto simp: merge_record_def Let_def merged_fields_def make_calldata_tuple_def
        call_get_def genotype_def ex_valid_def ex_unified_def ex_gt_def ex_ll_def ex_merged_def)

lemma ex_records_match: "records_match id ex_gt ex_ll = Inr ()"
  by (simp add: records_match_def ex_gt_def ex_ll_def)

lemma ex_step_pair:
  "step False id ex_valid ex_unified [(''DNM_LL'', ex_format)] {''s1''}
     \<lparr>ll_record = None, ll_stream = [ex_ll], stdout = [Header ex_unified]\<rparr> ex_gt
   = (\<lparr>ll_record = None, ll_stream = [], stdout = [Header ex_unified, Line ex_merged]\<rparr>, None)"
proof -
  have "\<not> (CHROM ex_gt \<noteq> CHROM ex_ll \<or> POS ex_gt < POS ex_ll)"
    by (simp add: ex_gt_def ex_ll_def)
  then show ?thesis
    by (simp add: step_def ex_records_match ex_merge_record)
qed

text \<open>
  Claim C4. The claim is that the primary records left when the secondary reader is
  exhausted are skipped silently and the run ends normally. On the example the first
  primary record is paired and written; at the second one the buffer is empty, the refill
  of line 53 meets the end of the secondary reader, and the run stops there with the
  uncaught \<^verbatim>\<open>StopIteration\<close>.
\<close>

theorem exhausted_secondary_stops_run:
  "main False id ex_valid ex_gt_reader ex_ll_reader
   = ([Header ex_unified, Line ex_merged], Some StopIteration)"
proof -
  have u: "unify_formats (formats ex_gt_reader) (formats ex_ll_reader) = Inr ex_unified"
    by (simp add: ex_gt_reader_def ex_ll_reader_def ex_unified_def)
  have s: "set (rsamples ex_ll_reader) \<inter> set (rsamples ex_gt_reader) \<noteq> {}"
    by (simp add: ex_gt_reader_def ex_ll_reader_def)
  have "pairing_loop False id ex_valid ex_unified [(''DNM_LL'', ex_format)] {''s1''}
      \<lparr>ll_record = None, ll_stream = [ex_ll], stdout = [Header ex_unified]\<rparr>
      [ex_gt, ex_gt\<lparr>POS := 200\<rparr>]
    = (\<lparr>ll_record = None, ll_stream = [], stdout = [Header ex_unified, Line ex_merged]\<rparr>,
       Some StopIteration)"
    by (simp add: ex_step_pair step_exhausted)
  then have l: "pairing_loop False id ex_valid ex_unified (formats ex_ll_reader)
      (set (rsamples ex_ll_reader))
      \<lparr>ll_record = None, ll_stream = records ex_ll_reader, stdout = [Header ex_unified]\<rparr>
      (records ex_gt_reader)
    = (\<lparr>ll_record = None, ll_stream = [], stdout = [Header ex_unified, Line ex_merged]\<rparr>,
       Some StopIteration)"
    by (simp add: ex_gt_reader_def ex_ll_reader_def)
  show ?thesis
    using main_run [OF s u l] by simp
qed

section \<open>The duplicate-field test\<close>

lemma ex_gl_merge_record:
  "merge_record False ex_valid
     [(''GT'', ex_format), (''GL'', ex_format), (''DNM_LL'', ex_format)]
     [(''DNM_LL'', ex_format)] {''s1''} ex_gl_gt ex_gl_ll
   = Inr ex_gl_merged"
  by (auto simp: merge_record_def Let_def merged_fields_def make_calldata_tuple_def
        call_get_def genotype_def ex_valid_def ex_gl_gt_def ex_gl_ll_def ex_gl_merged_def)

lemma ex_gl_records_match: "records_match id ex_gl_gt ex_gl_ll = Inr ()"
  by (simp add: records_match_def ex_gl_gt_def ex_gl_ll_def)

lemma ex_keep_merge_record:
  "merge_record True ex_valid
     [(''GT'', ex_format), (''GL'', ex_format), (''DNM_LL'', ex_format)]
     [(''DNM_LL'', ex_format)] {''s1''} ex_gl_gt ex_ll
   = Inr ex_gl_kept"
  by (auto simp: merge_record_def Let_def merged_fields_def make_calldata_tuple_def
        call_get_def genotype_def ex_valid_def ex_gl_gt_def ex_ll_def ex_gl_kept_def)

text \<open>
  Claim C5. The claim is that a field name occurring twice in the concatenated field lists
  ends the run with the duplicate-field error. The test of line 66 compares the length of
  the concatenation with the sum of the two lengths, which are always equal. On the
  example \<^verbatim>\<open>GL\<close> is in both field lists, and the run writes the merged record and ends
  normally.
\<close>

theorem duplicate_field_not_detected:
  "''GL'' \<in> set (py_split CHR '':'' ''GT:GL'') \<and> ''GL'' \<in> set (py_split CHR '':'' ''GL:DNM_LL'') \<and>
   FORMAT ex_gl_gt = Some ''GT:GL'' \<and> FORMAT ex_gl_ll = Some ''GL:DNM_LL'' \<and>
   main False id ex_valid ex_gl_gt_reader ex_gl_ll_reader
   = ([Header [(''GT'', ex_format), (''GL'', ex_format), (''DNM_LL'', ex_format)],
       Line ex_gl_merged], None)"
proof -
  let ?u = "[(''GT'', ex_format), (''GL'', ex_format), (''DNM_LL'', ex_format)]"
  have u: "unify_formats (formats ex_gl_gt_reader) (formats ex_gl_ll_reader) = Inr ?u"
    by (simp add: ex_gl_gt_reader_def ex_gl_ll_reader_def)
  have s: "set (rsamples ex_gl_ll_reader) \<inter> set (rsamples ex_gl_gt_reader) \<noteq> {}"
    by (simp add: ex_gl_gt_reader_def ex_gl_ll_reader_def)
  have c: "\<not> (CHROM ex_gl_gt \<noteq> CHROM ex_gl_ll \<or> POS ex_gl_gt < POS ex_gl_ll)"
    by (simp add: ex_gl_gt_def ex_gl_ll_def)
  have "pairing_loop False id ex_valid ?u [(''DNM_LL'', ex_format)] {''s1''}
      \<lparr>ll_record = None, ll_stream = [ex_gl_ll], stdout = [Header ?u]\<rparr> [ex_gl_gt]
    = (\<lparr>ll_record = None, ll_stream = [], stdout = [Header ?u, Line ex_gl_merged]\<rparr>, None)"
    using c by (simp add: step_def ex_gl_records_match ex_gl_merge_record)
  then have l: "pairing_loop False id ex_valid ?u (formats ex_gl_ll_reader)
      (set (rsamples ex_gl_ll_reader))
      \<lparr>ll_record = None, ll_stream = records ex_gl_ll_reader, stdout = [Header ?u]\<rparr>
      (records ex_gl_gt_reader)
    = (\<lparr>ll_record = None, ll_stream = [], stdout = [Header ?u, Line ex_gl_merged]\<rparr>, None)"
    by (simp add: ex_gl_gt_reader_def ex_gl_ll_reader_def)
  have f: "FORMAT ex_gl_gt = Some ''GT:GL''" "FORMAT ex_gl_ll = Some ''GL:DNM_LL''"
    by (simp_all add: ex_gl_gt_def ex_gl_ll_def)
  show ?thesis
    using main_run [OF s u l] f by simp
qed

text \<open>
  No run ends with the duplicate-field error, whatever the input.
\<close>

lemma unify_formats_error:
  "unify_formats gt ll = Inl e \<Longrightarrow> \<exists>k. e = FieldCollisionError k"
  by (induction gt ll rule: unify_formats.induct) (auto split: if_splits)

lemma field_sources_error:
  "field_sources gf lf G fs = Inl e \<Longrightarrow> \<exists>k. e = KeyError k"
  by (induction fs) (auto split: option.splits sum.splits)

lemma sampdat_error:
  "sampdat smp lls kf = Inl e \<Longrightarrow> \<exists>k. e = AttributeError k"
  by (induction smp lls kf rule: sampdat.induct)
     (auto simp: call_get_def split: option.splits sum.splits if_splits)

lemma new_samples_error:
  "new_samples A ll fs ig smps = Inl e \<Longrightarrow> (\<exists>k. e = AttributeError k) \<or> (\<exists>k. e = KeyError k)"
  by (induction smps)
     (auto simp: genotype_def dest: sampdat_error split: option.splits sum.splits if_splits)

lemma merge_record_error:
  "merge_record keep valid gf lf A gt ll = Inl e \<Longrightarrow>
   e = ValueError \<or> (\<exists>k. e = AttributeError k) \<or> (\<exists>k. e = KeyError k)"
  by (auto simp: merge_record_def Let_def make_calldata_tuple_def
           dest: field_sources_error new_samples_error
           split: option.splits sum.splits if_splits)

lemma step_error:
  "step keep str valid gf lf A st g = (st', Some e) \<Longrightarrow> e \<noteq> DuplicateFieldError"
  by (auto simp: step_def records_match_def dest: merge_record_error
           split: option.splits sum.splits if_splits list.splits)

lemma pairing_loop_error:
  "pairing_loop keep str valid gf lf A st gts = (st', Some e) \<Longrightarrow> e \<noteq> DuplicateFieldError"
proof (induction gts arbitrary: st)
  case Nil
  then show ?case by simp
next
  case (Cons g rest)
  obtain st1 r where s: "step keep str valid gf lf A st g = (st1, r)"
    by (cases "step keep str valid gf lf A st g")
  show ?case
  proof (cases r)
    case None
    with Cons s show ?thesis by simp
  next
    case (Some e')
    with Cons.prems s have "e' = e" by simp
    with s Some show ?thesis using step_error by blast
  qed
qed

lemma main_never_duplicate_field_error:
  "snd (main keep str valid gt ll) \<noteq> Some DuplicateFieldError"
proof
  assume a: "snd (main keep str valid gt ll) = Some DuplicateFieldError"
  show False
  proof (cases "set (rsamples ll) \<inter> set (rsamples gt) = {}")
    case True
    with a show False by (simp add: main_def)
  next
    case False
    show False
    proof (cases "unify_formats (formats gt) (formats ll)")
      case (Inl e)
      with a False unify_formats_error [OF Inl] show False by (auto simp: main_def)
    next
      case (Inr u)
      obtain st r where l: "pairing_loop keep str valid u (formats ll) (set (rsamples ll))
          \<lparr>ll_record = None, ll_stream = records ll, stdout = [Header u]\<rparr> (records gt) = (st, r)"
        by (cases "pairing_loop keep str valid u (formats ll) (set (rsamples ll))
          \<lparr>ll_record = None, ll_stream = records ll, stdout = [Header u]\<rparr> (records gt)")
      with a False Inr have "r = Some DuplicateFieldError" by (simp add: main_def)
      with l pairing_loop_error show False by blast
    qed
  qed
qed

section \<open>Initialisation\<close>

lemma update_fresh: "k \<notin> fst ` set al \<Longrightarrow> AList.update k v al = al @ [(k, v)]"
  by (induction al) auto

lemma unify_formats_disjoint:
  "distinct (map fst ll) \<Longrightarrow> fst ` set gt \<inter> fst ` set ll = {} \<Longrightarrow>
   unify_formats gt ll = Inr (gt @ ll)"
proof (induction ll arbitrary: gt)
  case Nil
  then show ?case by simp
next
  case (Cons p rest)
  obtain k v where p: "p = (k, v)" by (cases p)
  from Cons.prems have fresh: "k \<notin> fst ` set gt" and "k \<notin> fst ` set rest"
    and "distinct (map fst rest)" and "fst ` set gt \<inter> fst ` set rest = {}"
    by (auto simp: p)
  then have "unify_formats (gt @ [(k, v)]) rest = Inr ((gt @ [(k, v)]) @ rest)"
    by (intro Cons.IH) auto
  with fresh show ?case
    by (simp add: p update_fresh)
qed

lemma unify_formats_collision:
  "fst ` set ll \<inter> fst ` set gt \<noteq> {} \<Longrightarrow> distinct (map fst ll) \<Longrightarrow>
   \<exists>k\<in>fst ` set ll \<inter> fst ` set gt. unify_formats gt ll = Inl (FieldCollisionError k)"
proof (induction ll arbitrary: gt)
  case Nil
  then show ?case by simp
next
  case (Cons p rest)
  obtain k v where p: "p = (k, v)" by (cases p)
  show ?case
  proof (cases "k \<in> fst ` set gt")
    case True
    then show ?thesis by (auto simp: p)
  next
    case False
    from Cons.prems have k_rest: "k \<notin> fst ` set rest" and d: "distinct (map fst rest)"
      by (auto simp: p)
    from Cons.prems False have "fst ` set rest \<inter> fst ` set (AList.update k v gt) \<noteq> {}"
      by (auto simp: p dom_update)
    from Cons.IH [OF this d] obtain k' where
      k': "k' \<in> fst ` set rest" "k' \<in> fst ` set (AList.update k v gt)"
        "unify_formats (AList.update k v gt) rest = Inl (FieldCollisionError k')"
      by blast
    from k'(1,2) k_rest have "k' \<in> fst ` set gt"
      by (auto simp: dom_update)
    with k' False show ?thesis
      by (auto simp: p)
  qed
qed

lemma main_empty_intersection:
  "set (rsamples ll) \<inter> set (rsamples gt) = {} \<Longrightarrow>
   main keep str valid gt ll = ([], Some EmptyIntersectionError)"
  by (simp add: main_def)

text \<open>
  Claim C6, as stated, fails where both conditions hold: the sample check comes first, so
  two files that share no sample and both declare \<^verbatim>\<open>GT\<close> end with the empty-intersection
  error, not with the field-collision error.
\<close>

theorem collision_with_no_shared_sample:
  "''GT'' \<in> fst ` set (formats ex_other_reader) \<and> ''GT'' \<in> fst ` set (formats ex_gt_reader) \<and>
   main False id ex_valid ex_gt_reader ex_other_reader = ([], Some EmptyIntersectionError) \<and>
   main False id ex_valid ex_gt_reader ex_other_reader \<noteq> ([], Some (FieldCollisionError ''GT''))"
  by (simp add: main_def ex_other_reader_def ex_gt_reader_def)

text \<open>
  Claim C6, amended. If the two sample sets share no sample, the run ends with the
  empty-intersection error. If they share a sample and a key of the secondary FORMAT
  dictionary is in the primary one, the run ends with the field-collision error for such
  a key. In both cases nothing has been written, the header included, whatever records
  the two readers hold.
\<close>

theorem initialisation_errors_precede_output:
  "(set (rsamples ll) \<inter> set (rsamples gt) = {} \<longrightarrow>
      main keep str valid gt ll = ([], Some EmptyIntersectionError)) \<and>
   (set (rsamples ll) \<inter> set (rsamples gt) \<noteq> {} \<and> distinct (map fst (formats ll)) \<and>
    fst ` set (formats ll) \<inter> fst ` set (formats gt) \<noteq> {} \<longrightarrow>
      (\<exists>k\<in>fst ` set (formats ll) \<inter> fst ` set (formats gt).
         main keep str valid gt ll = ([], Some (FieldCollisionError k))))"
proof (intro conjI impI)
  assume "set (rsamples ll) \<inter> set (rsamples gt) = {}"
  then show "main keep str valid gt ll = ([], Some EmptyIntersectionError)"
    by (rule main_empty_intersection)
next
  assume a: "set (rsamples ll) \<inter> set (rsamples gt) \<noteq> {} \<and> distinct (map fst (formats ll)) \<and>
    fst ` set (formats ll) \<inter> fst ` set (formats gt) \<noteq> {}"
  then obtain k where "k \<in> fst ` set (formats ll) \<inter> fst ` set (formats gt)"
    "unify_formats (formats gt) (formats ll) = Inl (FieldCollisionError k)"
    using unify_formats_collision [of "formats ll" "formats gt"] by blast
  with a show "\<exists>k\<in>fst ` set (formats ll) \<inter> fst ` set (formats gt).
         main keep str valid gt ll = ([], Some (FieldCollisionError k))"
    by (auto simp: main_def)
qed

theorem initialisation_errors_precede_output_witness:
  "main False id ex_valid ex_gt_reader ex_other_reader = ([], Some EmptyIntersectionError) \<and>
   main False id ex_valid ex_gt_reader ex_collide_reader = ([], Some (FieldCollisionError ''DP''))"
proof -
  have a: "set (rsamples ex_other_reader) \<inter> set (rsamples ex_gt_reader) = {}"
    by (simp add: ex_other_reader_def ex_gt_reader_def)
  have b: "set (rsamples ex_collide_reader) \<inter> set (rsamples ex_gt_reader) \<noteq> {} \<and>
      distinct (map fst (formats ex_collide_reader)) \<and>
      fst ` set (formats ex_collide_reader) \<inter> fst ` set (formats ex_gt_reader) \<noteq> {}"
    by (simp add: ex_collide_reader_def ex_gt_reader_def)
  have c: "fst ` set (formats ex_collide_reader) \<inter> fst ` set (formats ex_gt_reader) = {''DP''}"
    by (simp add: ex_collide_reader_def ex_gt_reader_def)
  show ?thesis
    using initialisation_errors_precede_output [of ex_other_reader ex_gt_reader False id ex_valid]
      initialisation_errors_precede_output [of ex_collide_reader ex_gt_reader False id ex_valid]
      a b
    by (simp add: c)
qed

text \<open>
  Claim C9, as stated, fails: the unification stores the secondary keys in the primary
  dictionary, so running it again on the dictionary it produced meets the first secondary
  key there and exits.
\<close>

theorem second_unification_collides:
  "unify_formats [(''GT'', ex_format), (''DP'', ex_format)] [(''DNM_LL'', ex_format)]
     = Inr ex_unified \<and>
   unify_formats ex_unified [(''DNM_LL'', ex_format)] = Inl (FieldCollisionError ''DNM_LL'')"
  by (simp add: ex_unified_def)

text \<open>
  Claim C9, amended. On dictionaries with disjoint keys the unification succeeds and the
  keys of its result are the keys of both. Run a second time, on that result and the same
  secondary dictionary, it returns the result unchanged when the secondary dictionary is
  empty, and otherwise exits with the field-collision error for the first secondary key.
\<close>

theorem unify_formats_once_then_collision:
  assumes "distinct (map fst ll)" and "fst ` set gt \<inter> fst ` set ll = {}"
  shows "\<exists>u. unify_formats gt ll = Inr u \<and>
    fst ` set u = fst ` set gt \<union> fst ` set ll \<and>
    unify_formats u ll = (case ll of [] \<Rightarrow> Inr u | (k, v) # rest \<Rightarrow> Inl (FieldCollisionError k))"
proof -
  have "unify_formats gt ll = Inr (gt @ ll)"
    using assms by (rule unify_formats_disjoint)
  moreover have "unify_formats (gt @ ll) ll =
      (case ll of [] \<Rightarrow> Inr (gt @ ll) | (k, v) # rest \<Rightarrow> Inl (FieldCollisionError k))"
    by (cases ll) auto
  ultimately show ?thesis by (simp add: image_Un)
qed

theorem unify_formats_once_then_collision_witness:
  "distinct (map fst [(''DNM_LL'', ex_format)]) \<and>
   fst ` set [(''GT'', ex_format), (''DP'', ex_format)] \<inter> fst ` set [(''DNM_LL'', ex_format)] = {} \<and>
   (\<exists>u. unify_formats [(''GT'', ex_format), (''DP'', ex_format)] [(''DNM_LL'', ex_format)] = Inr u \<and>
     unify_formats u [(''DNM_LL'', ex_format)] = Inl (FieldCollisionError ''DNM_LL''))"
proof -
  have h1: "distinct (map fst [(''DNM_LL'', ex_format)])" by simp
  have h2: "fst ` set [(''GT'', ex_format), (''DP'', ex_format)]
      \<inter> fst ` set [(''DNM_LL'', ex_format)] = {}" by simp
  show ?thesis
    using unify_formats_once_then_collision [OF h1 h2] h1 h2 by simp
qed

section \<open>The merged record\<close>

lemma field_sources_in_gt:
  "field_sources gf lf gt_fields fs = Inr src \<Longrightarrow> map fst src = map (\<lambda>f. f \<in> set gt_fields) fs"
  by (induction fs arbitrary: src) (auto split: option.splits sum.splits)

lemma sampdat_values:
  "sampdat smp lls (zip fs (map P fs)) = Inr vs \<Longrightarrow>
   map Inr vs =
   map (\<lambda>key. if P key then call_get smp key
               else (case lls of None \<Rightarrow> Inr (PyStr ''.'') | Some l \<Rightarrow> call_get l key)) fs"
  by (induction fs arbitrary: vs) (auto split: option.splits sum.splits if_splits)

lemma call_get_zip:
  "map Inr vs = map g fs \<Longrightarrow> key \<in> set fs \<Longrightarrow> call_get \<lparr>sample = n, data = zip fs vs\<rparr> key = g key"
  by (induction fs arbitrary: vs) (auto simp: call_get_def Cons_eq_map_conv map_eq_Cons_conv)

lemma new_samples_resolved:
  "new_samples A ll fs (map P fs) smps = Inr cs \<Longrightarrow>
   list_all2 (\<lambda>smp c. sample c = sample smp \<and> map fst (data c) = fs \<and>
      (\<forall>key\<in>set fs. \<exists>v. call_get c key = Inr v \<and>
          (if P key then call_get smp key = Inr v
           else if sample smp \<in> A
             then (\<exists>l. genotype ll (sample smp) = Inr l \<and> call_get l key = Inr v)
             else v = PyStr ''.''))) smps cs"
proof (induction smps arbitrary: cs)
  case Nil
  then show ?case by simp
next
  case (Cons smp rest)
  from Cons.prems obtain lls vs cs' where
    lls: "(if sample smp \<in> A
           then (case genotype ll (sample smp) of Inl e \<Rightarrow> Inl e | Inr l \<Rightarrow> Inr (Some l))
           else Inr None) = Inr lls"
    and vs: "sampdat smp lls (zip fs (map P fs)) = Inr vs"
    and rest: "new_samples A ll fs (map P fs) rest = Inr cs'"
    and cs: "cs = \<lparr>sample = sample smp, data = zip fs vs\<rparr> # cs'"
    by (auto split: sum.splits)
  let ?g = "\<lambda>key. if P key then call_get smp key
               else (case lls of None \<Rightarrow> Inr (PyStr ''.'') | Some l \<Rightarrow> call_get l key)"
  have vals: "map Inr vs = map ?g fs"
    using vs by (rule sampdat_values)
  then have len: "length vs = length fs"
    using map_eq_imp_length_eq by fastforce
  have keys: "map fst (zip fs vs) = fs"
    using len by simp
  have one: "\<exists>v. call_get \<lparr>sample = sample smp, data = zip fs vs\<rparr> key = Inr v \<and>
          (if P key then call_get smp key = Inr v
           else if sample smp \<in> A
             then (\<exists>l. genotype ll (sample smp) = Inr l \<and> call_get l key = Inr v)
             else v = PyStr ''.'')" if key: "key \<in> set fs" for key
  proof -
    have g: "call_get \<lparr>sample = sample smp, data = zip fs vs\<rparr> key = ?g key"
      using vals key by (rule call_get_zip)
    obtain i where i: "i < length fs" "fs ! i = key"
      using key by (auto simp: in_set_conv_nth)
    have "map Inr vs ! i = map ?g fs ! i" using vals by simp
    then have "?g (fs ! i) = Inr (vs ! i)" using i(1) len by simp
    then have "?g key = Inr (vs ! i)" unfolding i(2) .
    with g lls show ?thesis
      by (auto split: if_splits sum.splits option.splits)
  qed
  show ?case
    using Cons.IH [OF rest] keys one by (simp add: cs)
qed

lemma py_split_no_sep: "c \<notin> set x \<Longrightarrow> py_split c x = [x]"
  by (induction x) auto

lemma py_split_append: "c \<notin> set x \<Longrightarrow> py_split c (x @ c # rest) = x # py_split c rest"
  by (induction x) auto

lemma py_split_not_Nil: "py_split c s \<noteq> []"
  by (induction s) (auto split: list.splits)

lemma py_split_pieces: "w \<in> set (py_split c s) \<Longrightarrow> c \<notin> set w"
  by (induction s arbitrary: w) (auto split: list.splits if_splits)

lemma py_split_join:
  "fs \<noteq> [] \<Longrightarrow> \<forall>w\<in>set fs. c \<notin> set w \<Longrightarrow> py_split c (py_join [c] fs) = fs"
  by (induction "[c]" fs rule: py_join.induct) (auto simp: py_split_no_sep py_split_append)

lemma merged_fields_origin:
  "distinct (merged_fields keep G D) \<Longrightarrow> key \<in> set (merged_fields keep G D) \<Longrightarrow>
   (key \<in> set D) = (key \<notin> set G)"
  by (auto simp: merged_fields_def split: if_splits)

lemma merge_record_Inr:
  assumes "merge_record keep valid gf lf A gt ll = Inr r"
  shows "\<exists>gfmt lfmt src calls.
    FORMAT gt = Some gfmt \<and> FORMAT ll = Some lfmt \<and>
    distinct (merged_fields keep (py_split CHR '':'' gfmt) (py_split CHR '':'' lfmt)) \<and>
    list_all valid (merged_fields keep (py_split CHR '':'' gfmt) (py_split CHR '':'' lfmt)) \<and>
    field_sources gf lf (py_split CHR '':'' gfmt)
      (merged_fields keep (py_split CHR '':'' gfmt) (py_split CHR '':'' lfmt)) = Inr src \<and>
    new_samples A ll (merged_fields keep (py_split CHR '':'' gfmt) (py_split CHR '':'' lfmt))
      (map fst src) (samples gt) = Inr calls \<and>
    r = gt\<lparr>FORMAT := Some (py_join '':''
              (merged_fields keep (py_split CHR '':'' gfmt) (py_split CHR '':'' lfmt))),
           samples := calls\<rparr>"
  using assms
  by (auto simp: merge_record_def Let_def make_calldata_tuple_def
           split: option.splits sum.splits if_splits)

lemma merge_record_calls:
  assumes "merge_record keep valid gf lf A gt ll = Inr r"
    and "FORMAT gt = Some gfmt" and "FORMAT ll = Some lfmt"
  shows "distinct (merged_fields keep (py_split CHR '':'' gfmt) (py_split CHR '':'' lfmt))"
    and "FORMAT r = Some (py_join '':''
           (merged_fields keep (py_split CHR '':'' gfmt) (py_split CHR '':'' lfmt)))"
    and "list_all2 (\<lambda>smp c. sample c = sample smp \<and>
           map fst (data c) = merged_fields keep (py_split CHR '':'' gfmt) (py_split CHR '':'' lfmt) \<and>
           (\<forall>key\<in>set (merged_fields keep (py_split CHR '':'' gfmt) (py_split CHR '':'' lfmt)).
              \<exists>v. call_get c key = Inr v \<and>
               (if key \<in> set (py_split CHR '':'' gfmt) then call_get smp key = Inr v
                else if sample smp \<in> A
                  then (\<exists>l. genotype ll (sample smp) = Inr l \<and> call_get l key = Inr v)
                  else v = PyStr ''.''))) (samples gt) (samples r)"
proof -
  let ?G = "py_split CHR '':'' gfmt" and ?D = "py_split CHR '':'' lfmt"
  from merge_record_Inr [OF assms(1)] assms(2,3) obtain src calls where
    d: "distinct (merged_fields keep ?G ?D)"
    and src: "field_sources gf lf ?G (merged_fields keep ?G ?D) = Inr src"
    and calls: "new_samples A ll (merged_fields keep ?G ?D) (map fst src) (samples gt) = Inr calls"
    and r: "r = gt\<lparr>FORMAT := Some (py_join '':'' (merged_fields keep ?G ?D)), samples := calls\<rparr>"
    by auto
  show "distinct (merged_fields keep ?G ?D)" by (rule d)
  show "FORMAT r = Some (py_join '':'' (merged_fields keep ?G ?D))" by (simp add: r)
  have "map fst src = map (\<lambda>f. f \<in> set ?G) (merged_fields keep ?G ?D)"
    using src by (rule field_sources_in_gt)
  with calls have
    "new_samples A ll (merged_fields keep ?G ?D)
       (map (\<lambda>f. f \<in> set ?G) (merged_fields keep ?G ?D)) (samples gt) = Inr calls"
    by simp
  from new_samples_resolved [OF this] show "list_all2 (\<lambda>smp c. sample c = sample smp \<and>
           map fst (data c) = merged_fields keep ?G ?D \<and>
           (\<forall>key\<in>set (merged_fields keep ?G ?D).
              \<exists>v. call_get c key = Inr v \<and>
               (if key \<in> set ?G then call_get smp key = Inr v
                else if sample smp \<in> A
                  then (\<exists>l. genotype ll (sample smp) = Inr l \<and> call_get l key = Inr v)
                  else v = PyStr ''.''))) (samples gt) (samples r)"
    by (simp add: r)
qed

text \<open>
  Claim C7. In a merged record there is one call per sample of the primary record, in
  order and under the same name. For each field of such a call: a field of the primary
  record's field list has the value of that sample in the primary record; any other field
  is a field of the secondary record, and its value is the value of the same-named sample
  of the secondary record when the sample is in the secondary reader's sample set, and the
  string \<^verbatim>\<open>"."\<close> when it is not. A field of the secondary record's field list is never also
  one of the primary record's.
\<close>

theorem sample_resolution:
  assumes "merge_record keep valid gf lf A gt ll = Inr r"
    and "FORMAT gt = Some gfmt" and "FORMAT ll = Some lfmt"
    and "i < length (samples gt)"
    and "key \<in> set (map fst (data (samples r ! i)))"
  shows "length (samples r) = length (samples gt) \<and>
    sample (samples r ! i) = sample (samples gt ! i) \<and>
    (key \<in> set (py_split CHR '':'' lfmt) \<longrightarrow> key \<notin> set (py_split CHR '':'' gfmt)) \<and>
    (\<exists>v. call_get (samples r ! i) key = Inr v \<and>
       (if key \<in> set (py_split CHR '':'' gfmt) then call_get (samples gt ! i) key = Inr v
        else key \<in> set (py_split CHR '':'' lfmt) \<and>
          (if sample (samples gt ! i) \<in> A
           then (\<exists>l. genotype ll (sample (samples gt ! i)) = Inr l \<and> call_get l key = Inr v)
           else v = PyStr ''.'')))"
proof -
  let ?G = "py_split CHR '':'' gfmt" and ?D = "py_split CHR '':'' lfmt"
  let ?F = "merged_fields keep ?G ?D"
  note calls = merge_record_calls [OF assms(1-3)]
  have len: "length (samples r) = length (samples gt)"
    using calls(3) by (simp add: list_all2_lengthD)
  have at_i: "sample (samples r ! i) = sample (samples gt ! i) \<and>
      map fst (data (samples r ! i)) = ?F \<and>
      (\<forall>key\<in>set ?F.
         \<exists>v. call_get (samples r ! i) key = Inr v \<and>
           (if key \<in> set ?G then call_get (samples gt ! i) key = Inr v
            else if sample (samples gt ! i) \<in> A
              then (\<exists>l. genotype ll (sample (samples gt ! i)) = Inr l \<and> call_get l key = Inr v)
              else v = PyStr ''.''))"
    using list_all2_nthD [OF calls(3) assms(4)] by simp
  then have key: "key \<in> set ?F"
    using assms(5) by simp
  have origin: "(key \<in> set ?D) = (key \<notin> set ?G)"
    using calls(1) key by (rule merged_fields_origin)
  from at_i key obtain v where v: "call_get (samples r ! i) key = Inr v"
    "if key \<in> set ?G then call_get (samples gt ! i) key = Inr v
     else if sample (samples gt ! i) \<in> A
       then (\<exists>l. genotype ll (sample (samples gt ! i)) = Inr l \<and> call_get l key = Inr v)
       else v = PyStr ''.''"
    by blast
  show ?thesis
    using len at_i origin v by (auto split: if_splits)
qed

theorem sample_resolution_witness:
  "merge_record False ex_valid ex_unified [(''DNM_LL'', ex_format)] {''s1''} ex_gt ex_ll
     = Inr ex_merged \<and>
   call_get (samples ex_merged ! 1) ''DNM_LL'' = Inr (PyStr ''.'') \<and>
   call_get (samples ex_merged ! 0) ''DNM_LL'' = Inr (PyStr ''-2.3'') \<and>
   call_get (samples ex_merged ! 0) ''DP'' = Inr (PyObj 30)"
proof -
  have f: "FORMAT ex_gt = Some ''GT:DP''" "FORMAT ex_ll = Some ''DNM_LL''"
    by (simp_all add: ex_gt_def ex_ll_def)
  have i: "0 < length (samples ex_gt)" "1 < length (samples ex_gt)"
    by (simp_all add: ex_gt_def)
  have k: "''DNM_LL'' \<in> set (map fst (data (samples ex_merged ! 1)))"
    "''DNM_LL'' \<in> set (map fst (data (samples ex_merged ! 0)))"
    "''DP'' \<in> set (map fst (data (samples ex_merged ! 0)))"
    by (simp_all add: ex_merged_def)
  have g: "genotype ex_ll ''s1'' = Inr \<lparr>sample = ''s1'', data = [(''DNM_LL'', PyStr ''-2.3'')]\<rparr>"
    by (simp add: genotype_def ex_ll_def)
  have c: "call_get \<lparr>sample = ''s1'', data = [(''DNM_LL'', PyStr ''-2.3'')]\<rparr> ''DNM_LL''
      = Inr (PyStr ''-2.3'' :: int pyval)"
    by (simp add: call_get_def)
  have s: "sample (samples ex_gt ! 0) = ''s1''" "sample (samples ex_gt ! 1) = ''s2''"
    "call_get (samples ex_gt ! 0) ''DP'' = Inr (PyObj 30)"
    by (simp_all add: ex_gt_def call_get_def)
  show ?thesis
    using sample_resolution [OF ex_merge_record f i(2) k(1)]
      sample_resolution [OF ex_merge_record f i(1) k(2)]
      sample_resolution [OF ex_merge_record f i(1) k(3)]
      ex_merge_record s g c
    by auto
qed

text \<open>
  Claim C8. The FORMAT column of a merged record joins the merged field list, and every
  call has exactly these fields. Without \<^verbatim>\<open>--keep-gls\<close> the list is the primary fields
  followed by the secondary fields with \<^verbatim>\<open>GL\<close>, \<^verbatim>\<open>PL\<close> and \<^verbatim>\<open>PHASEDGL\<close> removed, and
  none of the three is a field of the written FORMAT column; with \<^verbatim>\<open>--keep-gls\<close> the list,
  and the fields of the written FORMAT column, are all primary fields followed by all
  secondary fields.
\<close>

theorem likelihood_field_exclusion:
  assumes "merge_record keep valid gf lf A gt ll = Inr r"
    and "FORMAT gt = Some gfmt" and "FORMAT ll = Some lfmt"
  shows "FORMAT r = Some (py_join '':''
           (merged_fields keep (py_split CHR '':'' gfmt) (py_split CHR '':'' lfmt))) \<and>
    (\<forall>c\<in>set (samples r).
       map fst (data c) = merged_fields keep (py_split CHR '':'' gfmt) (py_split CHR '':'' lfmt)) \<and>
    (if keep
     then merged_fields keep (py_split CHR '':'' gfmt) (py_split CHR '':'' lfmt) =
            py_split CHR '':'' gfmt @ py_split CHR '':'' lfmt \<and>
          py_split CHR '':'' (the (FORMAT r)) = py_split CHR '':'' gfmt @ py_split CHR '':'' lfmt
     else merged_fields keep (py_split CHR '':'' gfmt) (py_split CHR '':'' lfmt) =
            filter (\<lambda>x. x \<noteq> ''GL'' \<and> x \<noteq> ''PL'' \<and> x \<noteq> ''PHASEDGL'')
              (py_split CHR '':'' gfmt @ py_split CHR '':'' lfmt) \<and>
          ''GL'' \<notin> set (py_split CHR '':'' (the (FORMAT r))) \<and>
          ''PL'' \<notin> set (py_split CHR '':'' (the (FORMAT r))) \<and>
          ''PHASEDGL'' \<notin> set (py_split CHR '':'' (the (FORMAT r))))"
proof -
  let ?G = "py_split CHR '':'' gfmt" and ?D = "py_split CHR '':'' lfmt"
  let ?F = "merged_fields keep ?G ?D"
  note calls = merge_record_calls [OF assms]
  have fmt: "FORMAT r = Some (py_join '':'' ?F)" by (rule calls(2))
  have flds: "\<forall>c\<in>set (samples r). map fst (data c) = ?F"
    using calls(3) by (auto simp: list_all2_conv_all_nth in_set_conv_nth)
  have pieces: "\<forall>w\<in>set ?F. CHR '':'' \<notin> set w"
    by (auto simp: merged_fields_def dest: py_split_pieces split: if_splits)
  have roundtrip: "py_split CHR '':'' (py_join '':'' ?F) = (if ?F = [] then [[]] else ?F)"
    using pieces by (simp add: py_split_join)
  show ?thesis
  proof (cases keep)
    case True
    then have "?F = ?G @ ?D" by (simp add: merged_fields_def)
    moreover have "?G @ ?D \<noteq> []" by (simp add: py_split_not_Nil)
    ultimately show ?thesis
      using True fmt flds roundtrip by simp
  next
    case False
    then have F: "?F = filter (\<lambda>x. x \<noteq> ''GL'' \<and> x \<noteq> ''PL'' \<and> x \<noteq> ''PHASEDGL'') (?G @ ?D)"
      by (simp add: merged_fields_def)
    have "''GL'' \<notin> set ?F" "''PL'' \<notin> set ?F" "''PHASEDGL'' \<notin> set ?F"
      unfolding F by simp_all
    then have "''GL'' \<notin> set (py_split CHR '':'' (py_join '':'' ?F))"
      "''PL'' \<notin> set (py_split CHR '':'' (py_join '':'' ?F))"
      "''PHASEDGL'' \<notin> set (py_split CHR '':'' (py_join '':'' ?F))"
      unfolding roundtrip by (simp_all split: if_splits)
    then show ?thesis
      using False fmt flds F by simp
  qed
qed

theorem likelihood_field_exclusion_witness:
  "merge_record False ex_valid
     [(''GT'', ex_format), (''GL'', ex_format), (''DNM_LL'', ex_format)]
     [(''DNM_LL'', ex_format)] {''s1''} ex_gl_gt ex_gl_ll = Inr ex_gl_merged \<and>
   ''GL'' \<notin> set (py_split CHR '':'' (the (FORMAT ex_gl_merged))) \<and>
   merge_record True ex_valid
     [(''GT'', ex_format), (''GL'', ex_format), (''DNM_LL'', ex_format)]
     [(''DNM_LL'', ex_format)] {''s1''} ex_gl_gt ex_ll = Inr ex_gl_kept \<and>
   py_split CHR '':'' (the (FORMAT ex_gl_kept)) = [''GT'', ''GL'', ''DNM_LL'']"
proof -
  have f: "FORMAT ex_gl_gt = Some ''GT:GL''" "FORMAT ex_gl_ll = Some ''GL:DNM_LL''"
    "FORMAT ex_ll = Some ''DNM_LL''"
    by (simp_all add: ex_gl_gt_def ex_gl_ll_def ex_ll_def)
  show ?thesis
    using likelihood_field_exclusion [OF ex_gl_merge_record f(1,2)]
      likelihood_field_exclusion [OF ex_keep_merge_record f(1,3)]
      ex_gl_merge_record ex_keep_merge_record
    by simp
qed

end
